theory Spec2Isabelle
  imports Main
begin

section \<open>BeerColorWidget (src/BeerColorWidget.cpp)\<close>

text \<open>
  Pointers are addresses, with address \<open>0\<close> the null pointer (the constructor writes
  \<^verbatim>\<open>recObs = 0\<close>, and \<^verbatim>\<open>if( recObs )\<close> tests for a non-zero address).
  The heap maps the addresses of live \<^verbatim>\<open>Recipe\<close> objects to their contents.
  Following a pointer that is null or that points at no live object is a fault, which the
  model returns as a value instead of hiding it.
\<close>

type_synonym addr = nat

datatype fault = NullDereference | DanglingDereference

definition deref :: "(addr \<rightharpoonup> 'r) \<Rightarrow> addr \<Rightarrow> fault + 'r" where
  "deref heap p =
     (if p = 0 then Inl NullDereference
      else case heap p of None \<Rightarrow> Inl DanglingDereference | Some r \<Rightarrow> Inr r)"

text \<open>
  The members of the widget that the file touches: \<^verbatim>\<open>glass\<close>, \<^verbatim>\<open>recObs\<close> and
  \<^verbatim>\<open>color\<close>. Field \<open>observer\<close> is the state of the \<^verbatim>\<open>Observer\<close> base class, which
  only \<^verbatim>\<open>setObserved\<close> writes; \<open>repaints\<close> counts the calls of
  \<^verbatim>\<open>QWidget::repaint()\<close>, the only effect of the widget on the screen.
  The classes \<^verbatim>\<open>Observer\<close>, \<^verbatim>\<open>Recipe\<close>, \<^verbatim>\<open>QColor\<close> and \<^verbatim>\<open>QImage\<close> are declared
  elsewhere: their values are type parameters, and the two functions of theirs that the
  file calls, \<^verbatim>\<open>Observer::setObserved\<close> and \<^verbatim>\<open>Recipe::getSRMColor\<close>, are
  parameters \<open>setObserved\<close> and \<open>getSRMColor\<close> of the operations:
  \<open>setObserved p\<close> is what \<^verbatim>\<open>setObserved(p)\<close> does to the state of the base class,
  and \<open>getSRMColor r\<close> is the colour of the recipe \<open>r\<close>.
\<close>

record ('obs, 'color, 'img) BeerColorWidget =
  observer :: 'obs
  glass :: 'img
  recObs :: addr
  color :: 'color
  repaints :: nat

text \<open>\<^verbatim>\<open>BeerColorWidget::BeerColorWidget()\<close>: loads the glass image and clears
  \<^verbatim>\<open>recObs\<close>. The size policy and the minimum size belong to \<^verbatim>\<open>QWidget\<close>.
  \<open>obs0\<close> and \<open>color0\<close> are what the default constructors of the base class and
  of \<^verbatim>\<open>QColor\<close> give.\<close>

definition newBeerColorWidget ::
  "'obs \<Rightarrow> 'color \<Rightarrow> 'img \<Rightarrow> ('obs, 'color, 'img) BeerColorWidget" where
  "newBeerColorWidget obs0 color0 GLASS =
     \<lparr>observer = obs0, glass = GLASS, recObs = 0, color = color0, repaints = 0\<rparr>"

text \<open>\<^verbatim>\<open>void BeerColorWidget::setColor( QColor newColor )\<close>:
  \<^verbatim>\<open>color = QColor(newColor); repaint();\<close>\<close>

definition setColor ::
  "('obs, 'color, 'img) BeerColorWidget \<Rightarrow> 'color \<Rightarrow> ('obs, 'color, 'img) BeerColorWidget" where
  "setColor w newColor = w\<lparr>color := newColor, repaints := Suc (repaints w)\<rparr>"

text \<open>\<^verbatim>\<open>void BeerColorWidget::setRecipe( Recipe* rec )\<close>:
  \<^verbatim>\<open>setObserved(rec); recObs = rec; if( recObs ) setColor( recObs->getSRMColor() );\<close>\<close>

definition setRecipe ::
  "(addr \<Rightarrow> 'obs \<Rightarrow> 'obs) \<Rightarrow> ('r \<Rightarrow> 'color) \<Rightarrow> (addr \<rightharpoonup> 'r) \<Rightarrow>
   ('obs, 'color, 'img) BeerColorWidget \<Rightarrow> addr \<Rightarrow>
   fault + ('obs, 'color, 'img) BeerColorWidget" where
  "setRecipe setObserved getSRMColor heap w rec =
     (let w1 = w\<lparr>observer := setObserved rec (observer w)\<rparr>;
          w2 = w1\<lparr>recObs := rec\<rparr>
      in if recObs w2 \<noteq> 0
         then (case deref heap (recObs w2) of
                 Inl f \<Rightarrow> Inl f
               | Inr r \<Rightarrow> Inr (setColor w2 (getSRMColor r)))
         else Inr w2)"

text \<open>\<^verbatim>\<open>void BeerColorWidget::notify(Observable* notifier, QVariant info)\<close>:
  \<^verbatim>\<open>if( notifier != recObs ) return; setColor( recObs->getSRMColor() );\<close>
  The second argument is never read.\<close>

definition notify ::
  "('r \<Rightarrow> 'color) \<Rightarrow> (addr \<rightharpoonup> 'r) \<Rightarrow> ('obs, 'color, 'img) BeerColorWidget \<Rightarrow>
   addr \<Rightarrow> 'info \<Rightarrow> fault + ('obs, 'color, 'img) BeerColorWidget" where
  "notify getSRMColor heap w notifier info =
     (if notifier \<noteq> recObs w then Inr w
      else case deref heap (recObs w) of
             Inl f \<Rightarrow> Inl f
           | Inr r \<Rightarrow> Inr (setColor w (getSRMColor r)))"

section \<open>XmlRecord: the declarations of xml/XmlRecord.h\<close>

text \<open>
  The header declares the class \<^verbatim>\<open>XmlRecord\<close>: its enums, the struct
  \<^verbatim>\<open>FieldDefinition\<close>, the data members and the signatures of the member functions.
  The bodies of the member functions (xml/XmlRecord.cpp) are not among the sources, so
  the types below are translated from the header and the functions further down are
  modelled from the specification.
\<close>

text \<open>\<^verbatim>\<open>enum class XmlRecord::FieldType\<close>, constructor for constructor.\<close>

datatype FieldType =
    Bool | Int | UInt | Double | String | Date | Enum | RequiredConstant
  | RecordSimple | RecordComplex | INVALID

text \<open>\<^verbatim>\<open>struct XmlRecord::FieldDefinition\<close>. \<^verbatim>\<open>XQString xPath\<close> and
  \<^verbatim>\<open>BtStringConst const & propertyName\<close> are strings;
  \<^verbatim>\<open>EnumStringMapping const * enumMapping\<close> is a table from the strings of the document
  to the values of an enum, or \<open>None\<close> for \<^verbatim>\<open>nullptr\<close>.\<close>

record FieldDefinition =
  fieldType :: FieldType
  xPath :: string
  propertyName :: string
  enumMapping :: "(string \<times> int) list option"

text \<open>What a \<^verbatim>\<open>NamedParameterBundle\<close> holds for a property: the value read from the
  text of a scalar field (of the parameter type \<open>'v\<close>, for \<^verbatim>\<open>QVariant\<close>), or the enum
  value an \<^verbatim>\<open>Enum\<close> field maps to.\<close>

datatype 'v QVariant = Parsed 'v | EnumValue int

text \<open>The data members of \<^verbatim>\<open>class XmlRecord\<close>: \<^verbatim>\<open>recordName\<close>,
  \<^verbatim>\<open>fieldDefinitions\<close>, \<^verbatim>\<open>namedEntityClassName\<close>, \<^verbatim>\<open>namedParameterBundle\<close>,
  \<^verbatim>\<open>namedEntity\<close> (a shared pointer, \<open>None\<close> when null; \<open>'e\<close> stands for
  \<^verbatim>\<open>NamedEntity\<close>), \<^verbatim>\<open>includeInStats\<close> and \<^verbatim>\<open>childRecords\<close>. A
  \<^verbatim>\<open>ChildRecord\<close> is the pair of a pointer into \<^verbatim>\<open>fieldDefinitions\<close>, here the
  position of the field definition in the list, and the nested record. The reference
  \<^verbatim>\<open>xmlCoding\<close> and the pointer \<^verbatim>\<open>typeLookup\<close> are shared by all records and are
  passed to the operations as \<open>XmlCoding\<close> below.\<close>

datatype ('v, 'e) XmlRecord = XmlRecord
  (recordName: string)
  (fieldDefinitions: "FieldDefinition list")
  (namedEntityClassName: string)
  (namedParameterBundle: "(string \<times> 'v QVariant) list")
  (namedEntity: "'e option")
  (includeInStats: bool)
  (childRecords: "(nat \<times> ('v, 'e) XmlRecord) list")

text \<open>Assignments to the members \<^verbatim>\<open>namedParameterBundle\<close> and \<^verbatim>\<open>childRecords\<close>.\<close>

definition setBundle ::
  "('v, 'e) XmlRecord \<Rightarrow> (string \<times> 'v QVariant) list \<Rightarrow> ('v, 'e) XmlRecord" where
  "setBundle r b =
     XmlRecord (recordName r) (fieldDefinitions r) (namedEntityClassName r) b
       (namedEntity r) (includeInStats r) (childRecords r)"

definition setChildRecords ::
  "('v, 'e) XmlRecord \<Rightarrow> (nat \<times> ('v, 'e) XmlRecord) list \<Rightarrow> ('v, 'e) XmlRecord" where
  "setChildRecords r cs =
     XmlRecord (recordName r) (fieldDefinitions r) (namedEntityClassName r)
       (namedParameterBundle r) (namedEntity r) (includeInStats r) cs"

section \<open>XmlRecord::modifyClashingName\<close>

text \<open>
  The header documents \<^verbatim>\<open>static void modifyClashingName(QString & candidateName)\<close>:
  for the clashing name "Oatmeal Stout" it tries adding a duplicate number in brackets
  to the end of the name, "Oatmeal Stout (1)"; the next call, supplying
  "Oatmeal Stout (1)", makes the name "Oatmeal Stout (2)" and not
  "Oatmeal Stout (1) (1)". The specification (section 4.2 step 3, section 8) says the
  same. The body is in xml/XmlRecord.cpp, which is not among the sources.
\<close>

text \<open>Modelled from the spec: the decimal digits of a bracketed duplicate number
  (the characters \<open>0\<close> to \<open>9\<close>, codes 48 to 57); the body of
  \<^verbatim>\<open>modifyClashingName\<close> that reads them is missing.\<close>

definition isDigit :: "char \<Rightarrow> bool" where
  "isDigit c = (48 \<le> (of_char c :: nat) \<and> (of_char c :: nat) \<le> 57)"

text \<open>Modelled from the spec: the value of a decimal digit; missing with the body of
  \<^verbatim>\<open>modifyClashingName\<close>.\<close>

definition digitValue :: "char \<Rightarrow> nat" where
  "digitValue c = of_char c - 48"

text \<open>Modelled from the spec: the character of a decimal digit; missing with the body of
  \<^verbatim>\<open>modifyClashingName\<close>.\<close>

definition digitChar :: "nat \<Rightarrow> char" where
  "digitChar d = char_of (48 + d)"

text \<open>Modelled from the spec: reading the duplicate number between the brackets, a
  decimal numeral, most significant digit first. The number is unbounded: the
  specification sets no limit to "(1)", "(2)", ....\<close>

definition toInt :: "string \<Rightarrow> nat" where
  "toInt ds = foldl (\<lambda>acc c. 10 * acc + digitValue c) 0 ds"

text \<open>Modelled from the spec: writing a duplicate number in decimal, without leading
  zeros, as in "(1)" and "(2)".\<close>

fun number :: "nat \<Rightarrow> string" where
  "number n = (if n < 10 then [digitChar n] else number (n div 10) @ [digitChar (n mod 10)])"

declare number.simps [simp del]

text \<open>Modelled from the spec: whether a name already ends in a bracketed duplicate
  number ("a name already ending in "(1)""): the name is read from its end, a closing
  bracket, one digit or more, an opening bracket. The result is the name up to the
  opening bracket and the number; \<open>None\<close> when the name does not end so.\<close>

definition duplicateNumberMatch :: "string \<Rightarrow> (string \<times> nat) option" where
  "duplicateNumberMatch name =
     (case rev name of
        [] \<Rightarrow> None
      | c # rest \<Rightarrow>
          if c \<noteq> CHR '')'' then None
          else (let ds = takeWhile isDigit rest in
                case dropWhile isDigit rest of
                  [] \<Rightarrow> None
                | b # base \<Rightarrow>
                    if b = CHR ''('' \<and> ds \<noteq> [] then Some (rev base, toInt (rev ds))
                    else None))"

text \<open>Modelled from the spec: \<^verbatim>\<open>XmlRecord::modifyClashingName\<close>, declared in the header
  with its body missing. A name that ends in a bracketed number gets that number
  replaced by the next one, in place; any other name gets \<open>" (1)"\<close> appended. The
  C++ function changes \<^verbatim>\<open>candidateName\<close> in place; the model returns the new name.\<close>

definition modifyClashingName :: "string \<Rightarrow> string" where
  "modifyClashingName candidateName =
     (case duplicateNumberMatch candidateName of
        None \<Rightarrow> candidateName @ '' (1)''
      | Some (truncated, n) \<Rightarrow> truncated @ ''('' @ number (n + 1) @ '')'')"

text \<open>The names the claim speaks of, "a name already ending in a bracketed number",
  stated without reference to how \<open>duplicateNumberMatch\<close> finds them: some text, an
  opening bracket, one or more digits, a closing bracket.\<close>

definition endsInDuplicateNumber :: "string \<Rightarrow> bool" where
  "endsInDuplicateNumber name =
     (\<exists>base ds. ds \<noteq> [] \<and> list_all isDigit ds \<and> name = base @ ''('' @ ds @ '')'')"

section \<open>XmlRecord::load\<close>

text \<open>
  The header declares \<^verbatim>\<open>bool load(domSupport, rootNodeOfRecord, userMessage)\<close> and
  the private \<^verbatim>\<open>bool loadChildRecords(domSupport, fieldDefinition,
  nodesForCurrentXPath, userMessage)\<close>; their bodies are in xml/XmlRecord.cpp, which is
  not among the sources. The model follows section 4.1 of the specification.
\<close>

















section \<open>A recipe with three hops\<close>













section \<open>Properties of BeerColorWidget\<close>

lemma setColor_fields:
  "color (setColor w c) = c" "repaints (setColor w c) = Suc (repaints w)"
  "recObs (setColor w c) = recObs w" "glass (setColor w c) = glass w"
  "observer (setColor w c) = observer w"
  by (simp_all add: setColor_def)

lemma deref_null: "deref heap 0 = Inl NullDereference"
  by (simp add: deref_def)

lemma deref_live: "p \<noteq> 0 \<Longrightarrow> heap p = Some r \<Longrightarrow> deref heap p = Inr r"
  by (simp add: deref_def)

lemma deref_Inr: "deref heap p = Inr r \<Longrightarrow> p \<noteq> 0 \<and> heap p = Some r"
  by (auto simp: deref_def split: if_splits option.splits)

lemma setRecipe_null:
  "setRecipe setObserved getSRMColor heap w 0
     = Inr (w\<lparr>observer := setObserved 0 (observer w), recObs := 0\<rparr>)"
  by (simp add: setRecipe_def)

lemma setRecipe_dangling:
  "rec \<noteq> 0 \<Longrightarrow> heap rec = None \<Longrightarrow>
   setRecipe setObserved getSRMColor heap w rec = Inl DanglingDereference"
  by (simp add: setRecipe_def deref_def)

lemma setRecipe_live:
  "rec \<noteq> 0 \<Longrightarrow> heap rec = Some r \<Longrightarrow>
   setRecipe setObserved getSRMColor heap w rec
     = Inr (w\<lparr>observer := setObserved rec (observer w), recObs := rec,
              color := getSRMColor r, repaints := Suc (repaints w)\<rparr>)"
  by (simp add: setRecipe_def deref_def setColor_def)

lemma notify_other: "notifier \<noteq> recObs w \<Longrightarrow> notify getSRMColor heap w notifier info = Inr w"
  by (simp add: notify_def)

lemma notify_fault:
  "deref heap (recObs w) = Inl f \<Longrightarrow> notify getSRMColor heap w (recObs w) info = Inl f"
  by (simp add: notify_def)

lemma notify_new_widget:
  "notifier \<noteq> 0 \<Longrightarrow>
   notify getSRMColor heap (newBeerColorWidget obs0 color0 GLASS) notifier info
     = Inr (newBeerColorWidget obs0 color0 GLASS)"
  by (simp add: notify_def newBeerColorWidget_def)

lemma notify_observed:
  "deref heap (recObs w) = Inr r \<Longrightarrow>
   notify getSRMColor heap w (recObs w) info = Inr (setColor w (getSRMColor r))"
  by (simp add: notify_def)


text \<open>
  Claim C9. \<^verbatim>\<open>setRecipe\<close> with the null pointer returns without a fault (nothing is
  dereferenced, whatever the heap holds), the observed recipe \<open>recObs\<close> is null
  afterwards, and the colour, the glass image and the number of repaints are what they
  were; the base class has seen \<^verbatim>\<open>setObserved(0)\<close> and nothing else changed.
  With a pointer to a live recipe the colour becomes that recipe's SRM colour and the
  widget is repainted once. And whenever a call changes the colour or repaints, its
  pointer was not null.
\<close>

theorem setRecipe_null_keeps_color:
  "setRecipe setObserved getSRMColor heap w 0
     = Inr (w\<lparr>observer := setObserved 0 (observer w), recObs := 0\<rparr>)
   \<and> (rec \<noteq> 0 \<and> heap rec = Some r \<longrightarrow>
         setRecipe setObserved getSRMColor heap w rec
           = Inr (w\<lparr>observer := setObserved rec (observer w), recObs := rec,
                    color := getSRMColor r, repaints := Suc (repaints w)\<rparr>))
   \<and> (setRecipe setObserved getSRMColor heap w rec = Inr w'
         \<and> (color w' \<noteq> color w \<or> repaints w' \<noteq> repaints w) \<longrightarrow>
         rec \<noteq> 0 \<and> (\<exists>r. heap rec = Some r \<and> color w' = getSRMColor r))"
proof (intro conjI impI)
  show "setRecipe setObserved getSRMColor heap w 0
     = Inr (w\<lparr>observer := setObserved 0 (observer w), recObs := 0\<rparr>)"
    by (rule setRecipe_null)
next
  assume "rec \<noteq> 0 \<and> heap rec = Some r"
  then show "setRecipe setObserved getSRMColor heap w rec
           = Inr (w\<lparr>observer := setObserved rec (observer w), recObs := rec,
                    color := getSRMColor r, repaints := Suc (repaints w)\<rparr>)"
    by (simp add: setRecipe_live)
next
  assume a: "setRecipe setObserved getSRMColor heap w rec = Inr w'
         \<and> (color w' \<noteq> color w \<or> repaints w' \<noteq> repaints w)"
  then have eq: "setRecipe setObserved getSRMColor heap w rec = Inr w'"
    and changed: "color w' \<noteq> color w \<or> repaints w' \<noteq> repaints w"
    by (rule conjunct1, rule conjunct2)
  show nz: "rec \<noteq> 0"
  proof
    assume "rec = 0"
    with eq have "Inr w' = setRecipe setObserved getSRMColor heap w 0" by simp
    then have "w' = w\<lparr>observer := setObserved 0 (observer w), recObs := 0\<rparr>"
      by (simp only: setRecipe_null sum.inject)
    then have "color w' = color w" "repaints w' = repaints w" by simp_all
    with changed show False by blast
  qed
  show "\<exists>r. heap rec = Some r \<and> color w' = getSRMColor r"
  proof (cases "heap rec")
    case None
    from nz None eq show ?thesis by (simp add: setRecipe_dangling)
  next
    case (Some r0)
    from nz Some eq
    have "w' = w\<lparr>observer := setObserved rec (observer w), recObs := rec,
              color := getSRMColor r0, repaints := Suc (repaints w)\<rparr>"
      by (simp add: setRecipe_live)
    then have "color w' = getSRMColor r0" by simp
    with Some show ?thesis by blast
  qed
qed

theorem setRecipe_null_keeps_color_witness:
  "(5::nat) \<noteq> 0 \<and> [5 \<mapsto> 7] (5::nat) = Some (7::nat)
   \<and> setRecipe (\<lambda>p (obs::nat). p) (\<lambda>r::nat. r + 1) [5 \<mapsto> 7]
       \<lparr>observer = 5, glass = (), recObs = 5, color = (3::nat), repaints = 2\<rparr> 0
     = Inr \<lparr>observer = 0, glass = (), recObs = 0, color = 3, repaints = 2\<rparr>
   \<and> setRecipe (\<lambda>p (obs::nat). p) (\<lambda>r::nat. r + 1) [5 \<mapsto> 7]
       \<lparr>observer = 0, glass = (), recObs = 0, color = (3::nat), repaints = 2\<rparr> 5
     = Inr \<lparr>observer = 5, glass = (), recObs = 5, color = 8, repaints = 3\<rparr>
   \<and> color \<lparr>observer = 5, glass = (), recObs = 5, color = (8::nat), repaints = 3\<rparr>
       \<noteq> color \<lparr>observer = (0::nat), glass = (), recObs = 0, color = (3::nat), repaints = 2\<rparr>
   \<and> (\<exists>r. [5 \<mapsto> 7] (5::nat) = Some r \<and> (8::nat) = r + 1)"
proof -
  let ?so = "\<lambda>p (obs::nat). p" and ?gs = "\<lambda>r::nat. r + 1" and ?h = "[5 \<mapsto> (7::nat)]"
  let ?w = "\<lparr>observer = 5, glass = (), recObs = 5, color = (3::nat), repaints = 2\<rparr>"
  let ?v = "\<lparr>observer = 0, glass = (), recObs = 0, color = (3::nat), repaints = 2\<rparr>"
  let ?v' = "\<lparr>observer = 5, glass = (), recObs = 5, color = (8::nat), repaints = 3\<rparr>"
  have hyp: "(5::nat) \<noteq> 0 \<and> ?h 5 = Some 7" by simp
  have null: "setRecipe ?so ?gs ?h ?w 0
      = Inr (?w\<lparr>observer := ?so 0 (observer ?w), recObs := 0\<rparr>)"
    using conjunct1 [OF setRecipe_null_keeps_color
      [where setObserved = ?so and getSRMColor = ?gs and heap = ?h and w = ?w]]
    by simp
  have live: "setRecipe ?so ?gs ?h ?v 5
      = Inr (?v\<lparr>observer := ?so 5 (observer ?v), recObs := 5,
                color := ?gs 7, repaints := Suc (repaints ?v)\<rparr>)"
    using mp [OF conjunct1 [OF conjunct2 [OF setRecipe_null_keeps_color
      [where setObserved = ?so and getSRMColor = ?gs and heap = ?h and w = ?v
         and rec = 5 and r = 7]]] hyp]
    by simp
  have a: "setRecipe ?so ?gs ?h ?w 0 = Inr ?v"
    using null by simp
  have b: "setRecipe ?so ?gs ?h ?v 5 = Inr ?v'"
    using live by simp
  have changed: "color ?v' \<noteq> color ?v" by simp
  have "(5::nat) \<noteq> 0 \<and> (\<exists>r. ?h 5 = Some r \<and> color ?v' = ?gs r)"
    using mp [OF conjunct2 [OF conjunct2 [OF setRecipe_null_keeps_color
      [where setObserved = ?so and getSRMColor = ?gs and heap = ?h and w = ?v
         and rec = 5 and w' = ?v']]] conjI [OF b disjI1 [OF changed]]]
    by simp
  then have c: "\<exists>r. ?h 5 = Some r \<and> (8::nat) = r + 1" by simp
  from hyp a b changed c show ?thesis by simp
qed

text \<open>
  Claim C10. A notification whose notifier is not the observed recipe returns at once:
  no fault, and the widget is the very same record (colour, repaint count, observed
  recipe, glass and base-class state). Conversely a call that changes the colour or
  repaints was made with the observed recipe as notifier, and the new colour is that
  recipe's SRM colour.
\<close>

theorem notify_other_notifier_unchanged:
  "(notifier \<noteq> recObs w \<longrightarrow> notify getSRMColor heap w notifier info = Inr w)
   \<and> (notify getSRMColor heap w notifier info = Inr w' \<and> w' \<noteq> w \<longrightarrow>
         notifier = recObs w
         \<and> (\<exists>r. heap (recObs w) = Some r \<and> w' = setColor w (getSRMColor r)))"
proof (intro conjI impI)
  assume "notifier \<noteq> recObs w"
  then show "notify getSRMColor heap w notifier info = Inr w"
    by (rule notify_other)
next
  assume a: "notify getSRMColor heap w notifier info = Inr w' \<and> w' \<noteq> w"
  then have eq: "notify getSRMColor heap w notifier info = Inr w'" and ne: "w' \<noteq> w"
    by (rule conjunct1, rule conjunct2)
  show same: "notifier = recObs w"
  proof (rule ccontr)
    assume "notifier \<noteq> recObs w"
    then have "notify getSRMColor heap w notifier info = Inr w"
      by (rule notify_other)
    with eq have "w' = w" by (simp only: sum.inject)
    with ne show False by blast
  qed
  show "\<exists>r. heap (recObs w) = Some r \<and> w' = setColor w (getSRMColor r)"
  proof (cases "deref heap (recObs w)")
    case (Inl f)
    from Inl eq same show ?thesis by (simp add: notify_fault)
  next
    case (Inr r0)
    from Inr eq same have "w' = setColor w (getSRMColor r0)"
      by (simp add: notify_observed)
    moreover from Inr have "heap (recObs w) = Some r0" by (simp add: deref_Inr)
    ultimately show ?thesis by blast
  qed
qed

theorem notify_other_notifier_unchanged_witness:
  "(4::nat) \<noteq> recObs \<lparr>observer = (), glass = (), recObs = 5, color = (3::nat), repaints = 2\<rparr>
   \<and> notify (\<lambda>r::nat. r + 1) [5 \<mapsto> 7]
        \<lparr>observer = (), glass = (), recObs = 5, color = (3::nat), repaints = 2\<rparr> 4 ()
     = Inr \<lparr>observer = (), glass = (), recObs = 5, color = 3, repaints = 2\<rparr>
   \<and> notify (\<lambda>r::nat. r + 1) [5 \<mapsto> 7]
        \<lparr>observer = (), glass = (), recObs = 5, color = (3::nat), repaints = 2\<rparr> 5 ()
     = Inr \<lparr>observer = (), glass = (), recObs = 5, color = 8, repaints = 3\<rparr>
   \<and> \<lparr>observer = (), glass = (), recObs = 5, color = 8, repaints = 3\<rparr>
       \<noteq> \<lparr>observer = (), glass = (), recObs = 5, color = (3::nat), repaints = 2\<rparr>
   \<and> (5::nat) = recObs \<lparr>observer = (), glass = (), recObs = 5, color = (3::nat), repaints = 2\<rparr>"
proof -
  let ?w = "\<lparr>observer = (), glass = (), recObs = 5, color = (3::nat), repaints = 2\<rparr>"
  let ?w' = "\<lparr>observer = (), glass = (), recObs = 5, color = (8::nat), repaints = 3\<rparr>"
  let ?gs = "\<lambda>r::nat. r + 1" and ?h = "[5 \<mapsto> (7::nat)]"
  have h: "(4::nat) \<noteq> recObs ?w" by simp
  have other: "notify ?gs ?h ?w 4 () = Inr ?w"
    using mp [OF conjunct1 [OF notify_other_notifier_unchanged
      [where notifier = 4 and w = ?w and getSRMColor = ?gs and heap = ?h and info = "()"]] h]
    by simp
  have upd: "notify ?gs ?h ?w 5 () = Inr ?w'"
    by (simp add: notify_def deref_def setColor_def)
  have ne: "?w' \<noteq> ?w" by simp
  have "5 = recObs ?w \<and> (\<exists>r. ?h (recObs ?w) = Some r \<and> ?w' = setColor ?w (?gs r))"
    using mp [OF conjunct2 [OF notify_other_notifier_unchanged
      [where notifier = 5 and w = ?w and w' = ?w' and getSRMColor = ?gs and heap = ?h
         and info = "()"]] conjI [OF upd ne]]
    by simp
  then have "5 = recObs ?w" by (rule conjunct1)
  with h other upd ne show ?thesis by simp
qed

section \<open>Properties of modifyClashingName\<close>

lemma of_char_digitChar: "d < 10 \<Longrightarrow> (of_char (digitChar d) :: nat) = 48 + d"
  by (simp add: digitChar_def)

lemma digitValue_digitChar: "d < 10 \<Longrightarrow> digitValue (digitChar d) = d"
  by (simp add: digitValue_def of_char_digitChar)

lemma isDigit_digitChar: "d < 10 \<Longrightarrow> isDigit (digitChar d)"
  by (simp add: isDigit_def of_char_digitChar)

lemma toInt_snoc: "toInt (ds @ [c]) = 10 * toInt ds + digitValue c"
  by (simp add: toInt_def)

lemma toInt_number: "toInt (number n) = n"
proof (induction n rule: number.induct)
  case (1 n)
  show ?case
  proof (cases "n < 10")
    case True
    then show ?thesis
      by (simp add: number.simps [of n] toInt_def digitValue_digitChar)
  next
    case False
    with 1 have "toInt (number (n div 10)) = n div 10" by simp
    with False show ?thesis
      by (simp add: number.simps [of n] toInt_snoc digitValue_digitChar)
  qed
qed

lemma number_digits: "list_all isDigit (number n) \<and> number n \<noteq> []"
proof (induction n rule: number.induct)
  case (1 n)
  show ?case
  proof (cases "n < 10")
    case True
    then show ?thesis by (simp add: number.simps [of n] isDigit_digitChar)
  next
    case False
    with 1 have "list_all isDigit (number (n div 10))" by simp
    with False show ?thesis by (simp add: number.simps [of n] isDigit_digitChar)
  qed
qed

lemma not_isDigit_open: "\<not> isDigit CHR ''(''"
  by (simp add: isDigit_def)

lemma takeWhile_digits:
  "list_all isDigit ds \<Longrightarrow> takeWhile isDigit (ds @ CHR ''('' # rest) = ds"
  by (induction ds) (simp_all add: not_isDigit_open)

lemma dropWhile_digits:
  "list_all isDigit ds \<Longrightarrow> dropWhile isDigit (ds @ CHR ''('' # rest) = CHR ''('' # rest"
  by (induction ds) (simp_all add: not_isDigit_open)

lemma duplicateNumberMatch_found:
  assumes "ds \<noteq> []" and "list_all isDigit ds"
  shows "duplicateNumberMatch (base @ CHR ''('' # ds @ '')'') = Some (base, toInt ds)"
proof -
  have r: "rev (base @ CHR ''('' # ds @ '')'') = CHR '')'' # (rev ds @ CHR ''('' # rev base)"
    by simp
  have d: "list_all isDigit (rev ds)" using assms(2) by (simp add: list_all_iff)
  show ?thesis
    unfolding duplicateNumberMatch_def r
    using assms(1) by (simp add: takeWhile_digits [OF d] dropWhile_digits [OF d])
qed

lemma duplicateNumberMatch_Some:
  assumes "duplicateNumberMatch name = Some (base, n)"
  shows "\<exists>ds. ds \<noteq> [] \<and> list_all isDigit ds \<and> n = toInt ds \<and> name = base @ ''('' @ ds @ '')''"
proof -
  from assms obtain c rest where r: "rev name = c # rest"
    by (cases "rev name") (auto simp: duplicateNumberMatch_def)
  let ?ds = "takeWhile isDigit rest"
  from assms r have c: "c = CHR '')''"
    by (auto simp: duplicateNumberMatch_def split: if_splits)
  from assms r c obtain b bs where d: "dropWhile isDigit rest = b # bs"
    by (cases "dropWhile isDigit rest") (auto simp: duplicateNumberMatch_def)
  from assms r c d have b: "b = CHR ''(''" and ne: "?ds \<noteq> []"
    and base: "base = rev bs" and n: "n = toInt (rev ?ds)"
    by (auto simp: duplicateNumberMatch_def Let_def split: if_splits)
  have "rest = ?ds @ dropWhile isDigit rest" by simp
  with d b have "rest = ?ds @ CHR ''('' # bs" by simp
  with r c have "rev name = CHR '')'' # ?ds @ CHR ''('' # bs" by simp
  then have "rev (rev name) = rev (CHR '')'' # ?ds @ CHR ''('' # bs)" by (rule arg_cong)
  then have "name = rev bs @ ''('' @ rev ?ds @ '')''" by simp
  moreover have "list_all isDigit (rev ?ds)"
    by (simp add: list_all_iff) (meson set_takeWhileD)
  ultimately show ?thesis using ne base n by auto
qed

lemma duplicateNumberMatch_None:
  "duplicateNumberMatch name = None \<longleftrightarrow> \<not> endsInDuplicateNumber name"
proof
  assume n: "duplicateNumberMatch name = None"
  show "\<not> endsInDuplicateNumber name"
  proof
    assume "endsInDuplicateNumber name"
    then obtain base ds where "ds \<noteq> []" "list_all isDigit ds" "name = base @ ''('' @ ds @ '')''"
      by (auto simp: endsInDuplicateNumber_def)
    then have "duplicateNumberMatch name = Some (base, toInt ds)"
      by (simp add: duplicateNumberMatch_found)
    with n show False by simp
  qed
next
  assume e: "\<not> endsInDuplicateNumber name"
  show "duplicateNumberMatch name = None"
  proof (cases "duplicateNumberMatch name")
    case None
    then show ?thesis .
  next
    case (Some p)
    obtain base n where "p = (base, n)" by (cases p)
    with Some duplicateNumberMatch_Some [of name base n] e show ?thesis
      by (auto simp: endsInDuplicateNumber_def)
  qed
qed

lemma modifyClashingName_fresh:
  "\<not> endsInDuplicateNumber name \<Longrightarrow> modifyClashingName name = name @ '' (1)''"
  by (simp add: modifyClashingName_def duplicateNumberMatch_None [symmetric])

lemma modifyClashingName_bump:
  "ds \<noteq> [] \<Longrightarrow> list_all isDigit ds \<Longrightarrow>
   modifyClashingName (base @ CHR ''('' # ds @ '')'') = base @ CHR ''('' # number (toInt ds + 1) @ '')''"
  by (simp add: modifyClashingName_def duplicateNumberMatch_found)

lemma number_2: "number 2 = ''2''" "number (Suc (Suc 0)) = ''2''"
  by code_simp+

lemma toInt_1: "toInt ''1'' = 1"
  by code_simp

text \<open>
  Claim C3. For every name: a name that does not end in a bracketed duplicate number
  gets \<open>" (1)"\<close> appended, and a second application to the result gives the name
  followed by \<open>" (2)"\<close>, never \<open>" (1) (1)"\<close>; a name that ends in a bracketed
  number gets that number incremented in place, the text before the bracket unchanged;
  in particular the name with number \<open>n\<close> becomes the name with number \<open>n + 1\<close>.
\<close>

theorem modifyClashingName_increments:
  "(\<not> endsInDuplicateNumber name \<longrightarrow>
      modifyClashingName name = name @ '' (1)''
      \<and> modifyClashingName (modifyClashingName name) = name @ '' (2)'')
   \<and> (ds \<noteq> [] \<and> list_all isDigit ds \<longrightarrow>
        modifyClashingName (base @ ''('' @ ds @ '')'')
          = base @ ''('' @ number (toInt ds + 1) @ '')'')
   \<and> modifyClashingName (base @ ''('' @ number n @ '')'')
        = base @ ''('' @ number (n + 1) @ '')''"
proof (intro conjI impI)
  assume f: "\<not> endsInDuplicateNumber name"
  then show one: "modifyClashingName name = name @ '' (1)''"
    by (rule modifyClashingName_fresh)
  have "modifyClashingName ((name @ '' '') @ CHR ''('' # ''1'' @ '')'')
      = (name @ '' '') @ CHR ''('' # number (toInt ''1'' + 1) @ '')''"
    by (rule modifyClashingName_bump) (simp_all add: isDigit_def)
  then show "modifyClashingName (modifyClashingName name) = name @ '' (2)''"
    by (simp add: one toInt_1 number_2 del: One_nat_def)
next
  assume "ds \<noteq> [] \<and> list_all isDigit ds"
  then show "modifyClashingName (base @ ''('' @ ds @ '')'')
          = base @ ''('' @ number (toInt ds + 1) @ '')''"
    by (simp add: modifyClashingName_bump)
next
  show "modifyClashingName (base @ ''('' @ number n @ '')'')
        = base @ ''('' @ number (n + 1) @ '')''"
    using modifyClashingName_bump [of "number n" base] number_digits [of n]
    by (simp add: toInt_number)
qed

lemma Oatmeal_fresh: "\<not> endsInDuplicateNumber ''Oatmeal Stout''"
proof -
  have "duplicateNumberMatch ''Oatmeal Stout'' = None" by code_simp
  then show ?thesis by (simp add: duplicateNumberMatch_None)
qed

theorem modifyClashingName_increments_witness:
  "\<not> endsInDuplicateNumber ''Oatmeal Stout''
   \<and> modifyClashingName ''Oatmeal Stout'' = ''Oatmeal Stout (1)''
   \<and> modifyClashingName (modifyClashingName ''Oatmeal Stout'') = ''Oatmeal Stout (2)''
   \<and> ''19'' \<noteq> [] \<and> list_all isDigit ''19''
   \<and> modifyClashingName ''Oatmeal Stout (19)'' = ''Oatmeal Stout (20)''"
proof -
  note t = modifyClashingName_increments
    [where name = "''Oatmeal Stout''" and base = "''Oatmeal Stout ''" and ds = "''19''"]
  have d: "''19'' \<noteq> [] \<and> list_all isDigit ''19''" by (simp add: isDigit_def)
  have n: "number (toInt ''19'' + 1) = ''20''" by code_simp
  note ab = mp [OF conjunct1 [OF t] Oatmeal_fresh]
  have a: "modifyClashingName ''Oatmeal Stout'' = ''Oatmeal Stout (1)''"
    using conjunct1 [OF ab] by simp
  have b: "modifyClashingName (modifyClashingName ''Oatmeal Stout'') = ''Oatmeal Stout (2)''"
    using conjunct2 [OF ab] by simp
  from mp [OF conjunct1 [OF conjunct2 [OF t]] d]
  have "modifyClashingName (''Oatmeal Stout '' @ ''('' @ ''19'' @ '')'')
      = ''Oatmeal Stout '' @ ''('' @ number (toInt ''19'' + 1) @ '')''" .
  then have c: "modifyClashingName ''Oatmeal Stout (19)'' = ''Oatmeal Stout (20)''"
    unfolding n by simp
  from Oatmeal_fresh a b c d show ?thesis by simp
qed

section \<open>Properties of load\<close>

lemma childRecords_setChildRecords [simp]: "childRecords (setChildRecords r cs) = cs"
  by (simp add: setChildRecords_def)

lemma childRecords_setBundle [simp]: "childRecords (setBundle r b) = childRecords r"
  by (simp add: setBundle_def)













end
